theory Spec2Isabelle
  imports Main
begin

section \<open>Runtime values\<close>

text \<open>
  The engine is untyped at run time (\<open>props: any\<close>), so its data is a universe of
  JavaScript values: \<open>undefined\<close>, \<open>null\<close>, booleans, numbers (integers here),
  strings, arrays, plain objects (a dictionary from property name to value), \<open>Error\<close>
  objects (with their message) and promises. A promise is modelled by its settlement: the
  value it is fulfilled with, or the reason it is rejected with; a continuation attached
  with \<open>then\<close> is run at the point where it is attached. Values are immutable: a callback
  observes the object it is handed and does not assign to its properties.
\<close>

datatype 'v settled = Fulfilled 'v | Rejected 'v

datatype val =
    VUndef
  | VNull
  | VBool bool
  | VNum int
  | VStr string
  | VArr "val list"
  | VObj "string \<Rightarrow> val option"
  | VError string
  | VPromise "val settled"

type_synonym obj = "string \<Rightarrow> val option"

text \<open>\<open>typeof v\<close>. There are no function values in the universe.\<close>

fun typeof :: "val \<Rightarrow> string" where
  "typeof VUndef = ''undefined''"
| "typeof VNull = ''object''"
| "typeof (VBool b) = ''boolean''"
| "typeof (VNum n) = ''number''"
| "typeof (VStr s) = ''string''"
| "typeof (VArr xs) = ''object''"
| "typeof (VObj m) = ''object''"
| "typeof (VError s) = ''object''"
| "typeof (VPromise p) = ''object''"

text \<open>Truthiness, as \<open>v || {}\<close> and \<open>v ? a : b\<close> read it.\<close>

fun truthy :: "val \<Rightarrow> bool" where
  "truthy VUndef = False"
| "truthy VNull = False"
| "truthy (VBool b) = b"
| "truthy (VNum n) = (n \<noteq> 0)"
| "truthy (VStr s) = (s \<noteq> [])"
| "truthy (VArr xs) = True"
| "truthy (VObj m) = True"
| "truthy (VError s) = True"
| "truthy (VPromise p) = True"

text \<open>\<open>result && typeof result.then === 'function'\<close>: only a promise has a callable \<open>then\<close>.\<close>

fun thenable :: "val \<Rightarrow> bool" where
  "thenable (VPromise p) = True"
| "thenable v = False"

text \<open>Decimal rendering of an index, for the property names of arrays and strings.\<close>

fun string_of_nat :: "nat \<Rightarrow> string" where
  "string_of_nat n =
     (if n < 10 then [char_of (48 + n)]
      else string_of_nat (n div 10) @ [char_of (48 + n mod 10)])"

text \<open>
  The own enumerable properties that an object spread \<open>{...v}\<close> copies: those of a plain
  object, the indexed elements of an array, the indexed characters of a string, and
  nothing for \<open>undefined\<close>, \<open>null\<close>, booleans, numbers, errors and promises.
\<close>

fun own :: "val \<Rightarrow> obj" where
  "own (VObj m) = m"
| "own (VArr xs) = map_of (zip (map string_of_nat [0..<length xs]) xs)"
| "own (VStr s) = map_of (zip (map string_of_nat [0..<length s]) (map (\<lambda>c. VStr [c]) s))"
| "own v = Map.empty"

section \<open>Effects and failures\<close>

text \<open>
  A user function (core logic, mapper, hook, default provider, schema \<open>parse\<close>) may
  throw, and may act on the world outside the engine. The world is the console, to which
  the engine itself writes with \<open>console.error\<close>, and a user part that only user
  functions touch. A computation takes the world and returns the thrown error or the
  value, with the world after it.
\<close>

datatype error = Thrown val

datatype log_entry =
    PropsValidationLog val
  | ResultValidationLog val

record 'u world =
  console :: "log_entry list"
  user :: 'u

type_synonym ('a, 'u) comp = "'u world \<Rightarrow> (error + 'a) \<times> 'u world"

type_synonym 'u fn = "val \<Rightarrow> (val, 'u) comp"

type_synonym 'u fn2 = "val \<Rightarrow> val \<Rightarrow> (val, 'u) comp"

text \<open>\<open>console.error(...)\<close> of the engine, recording the offending value.\<close>

definition console_error :: "log_entry \<Rightarrow> 'u world \<Rightarrow> 'u world" where
  "console_error e w = w\<lparr>console := console w @ [e]\<rparr>"

text \<open>
  \<open>p.then(f)\<close> on a settled promise: a rejection passes on; on fulfilment \<open>f\<close> runs on
  the value, a throw of \<open>f\<close> rejects the new promise, a promise returned by \<open>f\<close> is
  adopted, any other return value fulfils it.
\<close>

definition promiseThen :: "val settled \<Rightarrow> 'u fn \<Rightarrow> (val, 'u) comp" where
  "promiseThen p f w =
     (case p of
        Rejected e \<Rightarrow> (Inr (VPromise (Rejected e)), w)
      | Fulfilled v \<Rightarrow>
          (case f v w of
             (Inl (Thrown e), w') \<Rightarrow> (Inr (VPromise (Rejected e)), w')
           | (Inr r, w') \<Rightarrow> (Inr (if thenable r then r else VPromise (Fulfilled r)), w')))"

section \<open>The pipeline state\<close>

text \<open>
  \<open>BlueprintKey = string | symbol\<close>. A symbol is always truthy and prints as
  \<open>Symbol(description)\<close>; a string key is truthy when it is not empty.
\<close>

datatype BlueprintKey = KString string | KSymbol string

fun key_truthy :: "BlueprintKey option \<Rightarrow> bool" where
  "key_truthy None = False"
| "key_truthy (Some (KString s)) = (s \<noteq> [])"
| "key_truthy (Some (KSymbol d)) = True"

fun String_key :: "BlueprintKey \<Rightarrow> string" where
  "String_key (KString s) = s"
| "String_key (KSymbol d) = ''Symbol('' @ d @ '')''"

text \<open>
  \<open>interface BlueprintState\<close>. A schema is its \<open>parse\<close> function; a missing
  implementation or schema is \<open>None\<close>.
\<close>

record 'u BlueprintState =
  key :: "BlueprintKey option"
  description :: "string option"
  implementation :: "'u fn option"
  inputMappers :: "'u fn list"
  outputMappers :: "'u fn2 list"
  beforeHooks :: "'u fn list"
  afterHooks :: "'u fn2 list"
  defaultProviders :: "'u fn list"
  enforcedValues :: obj
  isAsync :: bool
  isVoid :: bool
  validateProps :: bool
  propsSchema :: "'u fn option"
  validateResults :: bool
  resultSchema :: "'u fn option"

text \<open>\<open>BlueprintOptions\<close> and the \<open>initialState\<close> that \<open>blueprint\<close> builds from them.\<close>

record 'u BlueprintOptions =
  opt_key :: "BlueprintKey option"
  opt_description :: "string option"
  initialImplementation :: "'u fn option"

definition initialState :: "'u BlueprintOptions \<Rightarrow> 'u BlueprintState" where
  "initialState parsedOptions =
     \<lparr> key = opt_key parsedOptions,
       description = opt_description parsedOptions,
       implementation = initialImplementation parsedOptions,
       inputMappers = [],
       outputMappers = [],
       beforeHooks = [],
       afterHooks = [],
       defaultProviders = [],
       enforcedValues = Map.empty,
       isAsync = False,
       isVoid = False,
       validateProps = False,
       propsSchema = None,
       validateResults = False,
       resultSchema = None \<rparr>"

section \<open>Invocation: \<open>callableBlueprint\<close>\<close>

text \<open>
  The first two statements of \<open>callableBlueprint\<close>: a copy of an object input, the
  input itself otherwise, and the empty record when the input is \<open>undefined\<close> and
  there is a default provider.
\<close>

definition providerProps :: "'u BlueprintState \<Rightarrow> val \<Rightarrow> val" where
  "providerProps st props =
     (let currentProps = (if typeof props = ''object'' \<and> props \<noteq> VNull
                          then VObj (own props) else props)
      in if props = VUndef \<and> 0 < length (defaultProviders st) then VObj Map.empty
         else currentProps)"

text \<open>
  Step 1, the loop over \<open>defaultProviders\<close>: every provider is called on the same
  \<open>currentProps\<close>, and its properties are spread over the defaults resolved so far.
\<close>

fun resolveDefaults :: "'u fn list \<Rightarrow> val \<Rightarrow> obj \<Rightarrow> (obj, 'u) comp" where
  "resolveDefaults [] currentProps resolvedDefaults w = (Inr resolvedDefaults, w)"
| "resolveDefaults (provider # providers) currentProps resolvedDefaults w =
     (case provider currentProps w of
        (Inl e, w') \<Rightarrow> (Inl e, w')
      | (Inr defaults, w') \<Rightarrow>
          resolveDefaults providers currentProps (resolvedDefaults ++ own defaults) w')"

text \<open>
  What the caller input contributes to the props: the properties of an object input,
  nothing for \<open>undefined\<close>, and the wrapping \<open>{ props }\<close> for any other input,
  \<open>null\<close> included.
\<close>

definition callerRecord :: "val \<Rightarrow> obj" where
  "callerRecord props =
     own (if typeof props = ''object'' \<and> props \<noteq> VNull then props
          else if props = VUndef then VObj Map.empty
          else VObj [''props'' \<mapsto> props])"

text \<open>
  The merge of the caller input over the resolved defaults, and the three-way branch
  after it.
\<close>

definition applyDefaults :: "'u BlueprintState \<Rightarrow> val \<Rightarrow> obj \<Rightarrow> val" where
  "applyDefaults st props resolvedDefaults =
     (let currentProps = VObj (resolvedDefaults ++ callerRecord props)
      in if typeof currentProps \<noteq> ''object'' \<and> enforcedValues st = Map.empty
            \<and> length (inputMappers st) = 0 \<and> implementation st = None
         then currentProps
         else if typeof currentProps \<noteq> ''object'' \<and> currentProps \<noteq> VNull
                 \<and> currentProps \<noteq> VUndef
         then currentProps
         else VObj (resolvedDefaults ++
                    own (if truthy currentProps then currentProps else VObj Map.empty)))"

text \<open>Step 2: the enforced values are spread over the props.\<close>

definition applyEnforced :: "'u BlueprintState \<Rightarrow> val \<Rightarrow> val" where
  "applyEnforced st currentProps = VObj (own currentProps ++ enforcedValues st)"

text \<open>Step 3: the input mappers, in list order, each on the previous one's output.\<close>

fun runInputMappers :: "'u fn list \<Rightarrow> 'u fn" where
  "runInputMappers [] mappedProps w = (Inr mappedProps, w)"
| "runInputMappers (mapper # mappers) mappedProps w =
     (case mapper mappedProps w of
        (Inl e, w') \<Rightarrow> (Inl e, w')
      | (Inr mapped, w') \<Rightarrow> runInputMappers mappers mapped w')"

text \<open>
  Step 3.5: the props schema parses the mapped props when validation is enabled and a
  schema is set; a failure is logged and thrown again.
\<close>

definition validatePropsStage :: "'u BlueprintState \<Rightarrow> 'u fn" where
  "validatePropsStage st mappedProps w =
     (case propsSchema st of
        Some parse \<Rightarrow>
          (if validateProps st
           then (case parse mappedProps w of
                   (Inl e, w') \<Rightarrow> (Inl e, console_error (PropsValidationLog mappedProps) w')
                 | (Inr validatedProps, w') \<Rightarrow> (Inr validatedProps, w'))
           else (Inr mappedProps, w))
      | None \<Rightarrow> (Inr mappedProps, w))"

text \<open>Step 4: \<open>beforeHooks.forEach\<close>; the hooks' return values are dropped.\<close>

fun runBeforeHooks :: "'u fn list \<Rightarrow> 'u fn" where
  "runBeforeHooks [] validatedProps w = (Inr VUndef, w)"
| "runBeforeHooks (hook # hooks) validatedProps w =
     (case hook validatedProps w of
        (Inl e, w') \<Rightarrow> (Inl e, w')
      | (Inr r, w') \<Rightarrow> runBeforeHooks hooks validatedProps w')"

text \<open>Step 5: the core implementation, or the error of a blueprint without one.\<close>

definition notImplementedError :: "'u BlueprintState \<Rightarrow> val" where
  "notImplementedError st =
     (let id = (if key_truthy (key st)
                then [CHR 0x27] @ String_key (the (key st)) @ [CHR 0x27] @ '' ''
                else [])
      in VError (''Blueprint '' @ id @ ''has not been implemented.''))"

definition runImplementation :: "'u BlueprintState \<Rightarrow> 'u fn" where
  "runImplementation st validatedProps w =
     (case implementation st of
        None \<Rightarrow> (Inl (Thrown (notImplementedError st)), w)
      | Some impl \<Rightarrow> impl validatedProps w)"

text \<open>Step 6: a result that is no promise is wrapped in one when \<open>isAsync\<close> is set.\<close>

definition asyncHandling :: "'u BlueprintState \<Rightarrow> val \<Rightarrow> val" where
  "asyncHandling st result =
     (if isAsync st \<and> \<not> thenable result then VPromise (Fulfilled result) else result)"

text \<open>Step 7: the output mappers, in list order, each with the validated props.\<close>

fun runOutputMappers :: "'u fn2 list \<Rightarrow> val \<Rightarrow> 'u fn" where
  "runOutputMappers [] validatedProps currentResult w = (Inr currentResult, w)"
| "runOutputMappers (mapper # mappers) validatedProps currentResult w =
     (case mapper currentResult validatedProps w of
        (Inl e, w') \<Rightarrow> (Inl e, w')
      | (Inr r, w') \<Rightarrow> runOutputMappers mappers validatedProps r w')"

text \<open>Step 7.5: result validation, as for the props.\<close>

definition validateResultStage :: "'u BlueprintState \<Rightarrow> 'u fn" where
  "validateResultStage st currentResult w =
     (case resultSchema st of
        Some parse \<Rightarrow>
          (if validateResults st
           then (case parse currentResult w of
                   (Inl e, w') \<Rightarrow> (Inl e, console_error (ResultValidationLog currentResult) w')
                 | (Inr validatedResult, w') \<Rightarrow> (Inr validatedResult, w'))
           else (Inr currentResult, w))
      | None \<Rightarrow> (Inr currentResult, w))"

text \<open>Step 8: \<open>afterHooks.forEach\<close>.\<close>

fun runAfterHooks :: "'u fn2 list \<Rightarrow> val \<Rightarrow> 'u fn" where
  "runAfterHooks [] validatedResult validatedProps w = (Inr VUndef, w)"
| "runAfterHooks (hook # hooks) validatedResult validatedProps w =
     (case hook validatedResult validatedProps w of
        (Inl e, w') \<Rightarrow> (Inl e, w')
      | (Inr r, w') \<Rightarrow> runAfterHooks hooks validatedResult validatedProps w')"

text \<open>\<open>processResultAndFinalize\<close>: steps 7 to 9, ending with the void handling.\<close>

definition processResultAndFinalize :: "'u BlueprintState \<Rightarrow> val \<Rightarrow> 'u fn" where
  "processResultAndFinalize st validatedProps resolvedResult w =
     (case runOutputMappers (outputMappers st) validatedProps resolvedResult w of
        (Inl e, w1) \<Rightarrow> (Inl e, w1)
      | (Inr currentResult, w1) \<Rightarrow>
          (case validateResultStage st currentResult w1 of
             (Inl e, w2) \<Rightarrow> (Inl e, w2)
           | (Inr validatedResult, w2) \<Rightarrow>
               (case runAfterHooks (afterHooks st) validatedResult validatedProps w2 of
                  (Inl e, w3) \<Rightarrow> (Inl e, w3)
                | (Inr u, w3) \<Rightarrow>
                    (if isVoid st then (Inr VUndef, w3) else (Inr validatedResult, w3)))))"

text \<open>
  Steps 1 to 3.5 in one function: the validated props that the hooks and the core
  implementation receive.
\<close>

definition prepareProps :: "'u BlueprintState \<Rightarrow> 'u fn" where
  "prepareProps st props w =
     (case resolveDefaults (defaultProviders st) (providerProps st props) Map.empty w of
        (Inl e, w1) \<Rightarrow> (Inl e, w1)
      | (Inr resolvedDefaults, w1) \<Rightarrow>
          (case runInputMappers (inputMappers st)
                  (applyEnforced st (applyDefaults st props resolvedDefaults)) w1 of
             (Inl e, w2) \<Rightarrow> (Inl e, w2)
           | (Inr mappedProps, w2) \<Rightarrow> validatePropsStage st mappedProps w2))"

text \<open>Steps 6 to 9 on the result of the core implementation.\<close>

definition finishCall :: "'u BlueprintState \<Rightarrow> val \<Rightarrow> 'u fn" where
  "finishCall st validatedProps result0 w =
     (let result = asyncHandling st result0
      in case result of
           VPromise p \<Rightarrow> promiseThen p (processResultAndFinalize st validatedProps) w
         | _ \<Rightarrow> processResultAndFinalize st validatedProps result w)"

text \<open>
  Steps 1 to 4 in one function: what the core implementation is called with, once the
  before hooks have run.
\<close>

definition propsForCore :: "'u BlueprintState \<Rightarrow> 'u fn" where
  "propsForCore st props w =
     (case prepareProps st props w of
        (Inl e, w1) \<Rightarrow> (Inl e, w1)
      | (Inr validatedProps, w1) \<Rightarrow>
          (case runBeforeHooks (beforeHooks st) validatedProps w1 of
             (Inl e, w2) \<Rightarrow> (Inl e, w2)
           | (Inr u, w2) \<Rightarrow> (Inr validatedProps, w2)))"

text \<open>The whole call of a blueprint whose state is \<open>st\<close>.\<close>

definition callableBlueprint :: "'u BlueprintState \<Rightarrow> 'u fn" where
  "callableBlueprint st props w =
     (case propsForCore st props w of
        (Inl e, w2) \<Rightarrow> (Inl e, w2)
      | (Inr validatedProps, w2) \<Rightarrow>
          (case runImplementation st validatedProps w2 of
             (Inl e, w3) \<Rightarrow> (Inl e, w3)
           | (Inr result, w3) \<Rightarrow> finishCall st validatedProps result w3))"

section \<open>Construction: \<open>makeCallable\<close> and the chain methods\<close>

text \<open>
  Every call of \<open>makeCallable\<close> creates a new function object that closes over the
  state it is given. The callables are the cells of a store, a callable is the index of
  its cell, and the cell holds the \<open>currentState\<close> of the closure. The store only
  grows: no method assigns to an existing cell.
\<close>

type_synonym 'u heap = "'u BlueprintState list"

type_synonym ref = nat

definition makeCallable :: "'u heap \<Rightarrow> 'u BlueprintState \<Rightarrow> 'u heap \<times> ref" where
  "makeCallable h currentState = (h @ [currentState], length h)"

text \<open>Calling the callable \<open>self\<close>.\<close>

definition invoke :: "'u heap \<Rightarrow> ref \<Rightarrow> 'u fn" where
  "invoke h self = callableBlueprint (h ! self)"

text \<open>
  The factory \<open>blueprint(optionsOrImplementation)\<close>: a function argument becomes the
  initial implementation, an options record is read field by field, and no argument
  leaves every field undefined.
\<close>

datatype 'u factoryArg =
    ImplementationArg "'u fn"
  | OptionsArg "'u BlueprintOptions"
  | NoArg

fun parsedOptions :: "'u factoryArg \<Rightarrow> 'u BlueprintOptions" where
  "parsedOptions (ImplementationArg f) =
     \<lparr> opt_key = None, opt_description = None, initialImplementation = Some f \<rparr>"
| "parsedOptions (OptionsArg opts) = opts"
| "parsedOptions NoArg =
     \<lparr> opt_key = None, opt_description = None, initialImplementation = None \<rparr>"

definition blueprint :: "'u heap \<Rightarrow> 'u factoryArg \<Rightarrow> 'u heap \<times> ref" where
  "blueprint h optionsOrImplementation =
     makeCallable h (initialState (parsedOptions optionsOrImplementation))"

definition implement :: "'u heap \<Rightarrow> ref \<Rightarrow> 'u fn \<Rightarrow> 'u heap \<times> ref" where
  "implement h self newImpl = makeCallable h ((h ! self)\<lparr>implementation := Some newImpl\<rparr>)"

definition input :: "'u heap \<Rightarrow> ref \<Rightarrow> 'u fn \<Rightarrow> 'u heap \<times> ref" where
  "input h self transform =
     makeCallable h ((h ! self)\<lparr>inputMappers := transform # inputMappers (h ! self)\<rparr>)"

text \<open>\<open>defaults\<close> takes a provider function, or a static value that it wraps in one.\<close>

datatype 'u defaultsArg = StaticDefaults val | ProviderFn "'u fn"

fun provider_of :: "'u defaultsArg \<Rightarrow> 'u fn" where
  "provider_of (ProviderFn f) = f"
| "provider_of (StaticDefaults d) = (\<lambda>currentProps w. (Inr d, w))"

definition defaults :: "'u heap \<Rightarrow> ref \<Rightarrow> 'u defaultsArg \<Rightarrow> 'u heap \<times> ref" where
  "defaults h self defaultsOrProvider =
     makeCallable h ((h ! self)\<lparr>defaultProviders :=
        defaultProviders (h ! self) @ [provider_of defaultsOrProvider]\<rparr>)"

definition enforce :: "'u heap \<Rightarrow> ref \<Rightarrow> val \<Rightarrow> 'u heap \<times> ref" where
  "enforce h self enforced =
     makeCallable h ((h ! self)\<lparr>enforcedValues := enforcedValues (h ! self) ++ own enforced\<rparr>)"

definition output_method :: "'u heap \<Rightarrow> ref \<Rightarrow> 'u fn2 \<Rightarrow> 'u heap \<times> ref" where
  "output_method h self transform =
     makeCallable h ((h ! self)\<lparr>outputMappers := outputMappers (h ! self) @ [transform]\<rparr>)"

definition before :: "'u heap \<Rightarrow> ref \<Rightarrow> 'u fn \<Rightarrow> 'u heap \<times> ref" where
  "before h self effect =
     makeCallable h ((h ! self)\<lparr>beforeHooks := beforeHooks (h ! self) @ [effect]\<rparr>)"

definition after :: "'u heap \<Rightarrow> ref \<Rightarrow> 'u fn2 \<Rightarrow> 'u heap \<times> ref" where
  "after h self effect =
     makeCallable h ((h ! self)\<lparr>afterHooks := afterHooks (h ! self) @ [effect]\<rparr>)"

definition toAsync :: "'u heap \<Rightarrow> ref \<Rightarrow> 'u heap \<times> ref" where
  "toAsync h self = makeCallable h ((h ! self)\<lparr>isAsync := True\<rparr>)"

definition toVoid :: "'u heap \<Rightarrow> ref \<Rightarrow> 'u heap \<times> ref" where
  "toVoid h self = makeCallable h ((h ! self)\<lparr>isVoid := True\<rparr>)"

definition zProps :: "'u heap \<Rightarrow> ref \<Rightarrow> 'u fn \<Rightarrow> 'u heap \<times> ref" where
  "zProps h self schema =
     makeCallable h ((h ! self)\<lparr>propsSchema := Some schema, validateProps := True\<rparr>)"

definition zResult :: "'u heap \<Rightarrow> ref \<Rightarrow> 'u fn \<Rightarrow> 'u heap \<times> ref" where
  "zResult h self schema =
     makeCallable h ((h ! self)\<lparr>resultSchema := Some schema, validateResults := True\<rparr>)"

text \<open>
  \<open>pipe\<close>. The next stage is a blueprint or a plain function; \<open>executeNext\<close> calls
  it either way. The new implementation calls the receiver, then the next stage on its
  result, through \<open>then\<close> when that result is a promise.
\<close>

datatype 'u nextArg = NextBlueprint ref | NextFn "'u fn"

fun executeNext :: "'u heap \<Rightarrow> 'u nextArg \<Rightarrow> 'u fn" where
  "executeNext h (NextBlueprint b) resolvedCurrentResult = invoke h b resolvedCurrentResult"
| "executeNext h (NextFn f) resolvedCurrentResult = f resolvedCurrentResult"

definition newImplementation :: "'u heap \<Rightarrow> ref \<Rightarrow> 'u nextArg \<Rightarrow> 'u fn" where
  "newImplementation h self nextBlueprintOrFn initialProps w =
     (case invoke h self initialProps w of
        (Inl e, w') \<Rightarrow> (Inl e, w')
      | (Inr currentBlueprintResult, w') \<Rightarrow>
          (case currentBlueprintResult of
             VPromise p \<Rightarrow> promiseThen p (executeNext h nextBlueprintOrFn) w'
           | _ \<Rightarrow> executeNext h nextBlueprintOrFn currentBlueprintResult w'))"

definition pipedState :: "'u heap \<Rightarrow> ref \<Rightarrow> 'u nextArg \<Rightarrow> 'u BlueprintState" where
  "pipedState h self nextBlueprintOrFn =
     \<lparr> key = (if key_truthy (key (h ! self))
              then Some (KString (String_key (the (key (h ! self))) @ '' |> piped''))
              else None),
       description = (case description (h ! self) of
                        None \<Rightarrow> None
                      | Some d \<Rightarrow> if d \<noteq> [] then Some (d @ '', then piped'') else None),
       implementation = Some (newImplementation h self nextBlueprintOrFn),
       inputMappers = [],
       outputMappers = [],
       beforeHooks = [],
       afterHooks = [],
       defaultProviders = [],
       enforcedValues = Map.empty,
       isAsync = isAsync (h ! self),
       isVoid = isVoid (h ! self),
       validateProps = False,
       propsSchema = None,
       validateResults = False,
       resultSchema = None \<rparr>"

definition pipe :: "'u heap \<Rightarrow> ref \<Rightarrow> 'u nextArg \<Rightarrow> 'u heap \<times> ref" where
  "pipe h self nextBlueprintOrFn = makeCallable h (pipedState h self nextBlueprintOrFn)"

text \<open>The twelve chain methods as one type, and a chain call as one function.\<close>

datatype 'u chainMethod =
    Implement "'u fn"
  | Input "'u fn"
  | Defaults "'u defaultsArg"
  | Enforce val
  | Output "'u fn2"
  | Before "'u fn"
  | After "'u fn2"
  | ToAsync
  | ToVoid
  | ZProps "'u fn"
  | ZResult "'u fn"
  | Pipe "'u nextArg"

fun chain :: "'u heap \<Rightarrow> ref \<Rightarrow> 'u chainMethod \<Rightarrow> 'u heap \<times> ref" where
  "chain h self (Implement f) = implement h self f"
| "chain h self (Input t) = input h self t"
| "chain h self (Defaults d) = defaults h self d"
| "chain h self (Enforce e) = enforce h self e"
| "chain h self (Output t) = output_method h self t"
| "chain h self (Before e) = before h self e"
| "chain h self (After e) = after h self e"
| "chain h self ToAsync = toAsync h self"
| "chain h self ToVoid = toVoid h self"
| "chain h self (ZProps s) = zProps h self s"
| "chain h self (ZResult s) = zResult h self s"
| "chain h self (Pipe n) = pipe h self n"

text \<open>A sequence of chain calls, each on the callable the previous one returned.\<close>

fun chainAll :: "'u heap \<Rightarrow> ref \<Rightarrow> 'u chainMethod list \<Rightarrow> 'u heap \<times> ref" where
  "chainAll h self [] = (h, self)"
| "chainAll h self (m # ms) = (case chain h self m of (h', b) \<Rightarrow> chainAll h' b ms)"

section \<open>The blueprint with addons\<close>

text \<open>
  The \<open>Blueprint\<close> interface with \<open>addons\<close> and its factory keep the implementation
  in a variable of the factory's closure and hang the methods on the function object
  \<open>_blueprint\<close> as properties. A property holds a plain value, a function (named here
  by a label), an array or an object.
\<close>

datatype field =
    FVal val
  | FFun string
  | FArr "field list"
  | FObj "string \<Rightarrow> field option"

type_synonym fields = "string \<Rightarrow> field option"




text \<open>
  One blueprint of this kind: the closure variable \<open>implementation\<close> and the own
  properties of \<open>_blueprint\<close>. The blueprints live in a store, as the callables of the
  engine do.
\<close>

record 'u Blueprint =
  closure_implementation :: "'u fn"
  properties :: fields

type_synonym 'u store = "'u Blueprint list"

record 'u BlueprintInit =
  init_key :: "string option"
  init_description :: "string option"
  init_addons :: "field list option"
  init :: "'u fn option"

definition opt_str :: "string option \<Rightarrow> field" where
  "opt_str s = (case s of None \<Rightarrow> FVal VUndef | Some t \<Rightarrow> FVal (VStr t))"

definition blueprintA :: "'u store \<Rightarrow> 'u BlueprintInit \<Rightarrow> 'u store \<times> ref" where
  "blueprintA s opts =
     (s @ [\<lparr> closure_implementation =
               (case init opts of
                  Some f \<Rightarrow> f
                | None \<Rightarrow> (\<lambda>props w. (Inl (Thrown (VError ''Not Implemented'')), w))),
             properties =
               [''key'' \<mapsto> opt_str (init_key opts),
                ''description'' \<mapsto> opt_str (init_description opts),
                ''implement'' \<mapsto> FFun ''implement'',
                ''mod'' \<mapsto> FFun ''mod'',
                ''addons'' \<mapsto> FArr (case init_addons opts of None \<Rightarrow> [] | Some as \<Rightarrow> as),
                ''addon'' \<mapsto> FFun ''addon'',
                ''enforce'' \<mapsto> FFun ''enforce'',
                ''defaults'' \<mapsto> FFun ''defaults'',
                ''returning'' \<mapsto> FFun ''returning'',
                ''async'' \<mapsto> FFun ''async'',
                ''void'' \<mapsto> FFun ''void''] \<rparr>],
      length s)"

text \<open>\<open>_blueprint = (props) => implementation(props)\<close>.\<close>

definition callA :: "'u store \<Rightarrow> ref \<Rightarrow> 'u fn" where
  "callA s self props = closure_implementation (s ! self) props"

text \<open>\<open>implement\<close> assigns to the closure variable and returns \<open>_blueprint\<close>.\<close>

definition implementA :: "'u store \<Rightarrow> ref \<Rightarrow> 'u fn \<Rightarrow> 'u store \<times> ref" where
  "implementA s self newImpl =
     (s[self := (s ! self)\<lparr>closure_implementation := newImpl\<rparr>], self)"


section \<open>The core with addons of the how-to\<close>





section \<open>Concrete blueprints and inputs\<close>

text \<open>The world of the examples: the user part is a trace of what the user functions did.\<close>

definition w0 :: "string list world" where
  "w0 = \<lparr> console = [], user = [] \<rparr>"

text \<open>A function that returns a fixed value, and one that returns its argument.\<close>

definition returns :: "val \<Rightarrow> 'u fn" where
  "returns v = (\<lambda>props w. (Inr v, w))"

definition echo :: "'u fn" where
  "echo = (\<lambda>props w. (Inr props, w))"

text \<open>\<open>blueprint(() => 1)\<close> of the engine, and the blueprint with addons of the same logic.\<close>

definition ex0 :: "string list heap" where
  "ex0 = fst (blueprint [] (ImplementationArg (returns (VNum 1))))"

definition exA :: "string list store" where
  "exA = fst (blueprintA [] \<lparr> init_key = None, init_description = None, init_addons = None,
                               init = Some (returns (VNum 1)) \<rparr>)"

text \<open>Functions that leave a mark in the trace: one returns a fixed value, one its argument.\<close>

definition logs :: "string \<Rightarrow> val \<Rightarrow> string list fn" where
  "logs s v = (\<lambda>props w. (Inr v, w\<lparr>user := user w @ [s]\<rparr>))"

definition logsEcho :: "string \<Rightarrow> string list fn" where
  "logsEcho s = (\<lambda>props w. (Inr props, w\<lparr>user := user w @ [s]\<rparr>))"


text \<open>
  The schema \<open>z.object({ name: z.string().min(1) })\<close>, and a blueprint with that props
  schema whose core logic leaves a mark.
\<close>

definition requireName :: "'u fn" where
  "requireName = (\<lambda>v w.
     case v of
       VObj m \<Rightarrow> (case m ''name'' of
                     Some (VStr s) \<Rightarrow> if s \<noteq> [] then (Inr (VObj [''name'' \<mapsto> VStr s]), w)
                                     else (Inl (Thrown (VError ''ZodError: name is too short'')), w)
                   | _ \<Rightarrow> (Inl (Thrown (VError ''ZodError: name is not a string'')), w))
     | _ \<Rightarrow> (Inl (Thrown (VError ''ZodError: not an object'')), w))"

definition exValidated :: "string list heap \<times> ref" where
  "exValidated =
     chainAll (fst (blueprint [] (ImplementationArg (logs ''core'' (VStr ''done''))))) 0
       [ZProps requireName]"

text \<open>
  The core logic \<open>input => input.a + input.b\<close> on numbers (any other operands give
  \<open>NaN\<close> or a string, which stand outside the integers; \<open>undefined\<close> stands for them),
  with \<open>.defaults({ b: 2 })\<close>, and then with \<open>.enforce({ b: 100 })\<close>.
\<close>

definition sumAB :: "'u fn" where
  "sumAB = (\<lambda>input w.
     case (own input ''a'', own input ''b'') of
       (Some (VNum a), Some (VNum b)) \<Rightarrow> (Inr (VNum (a + b)), w)
     | _ \<Rightarrow> (Inr VUndef, w))"

definition exSum :: "string list heap \<times> ref" where
  "exSum = chainAll (fst (blueprint [] (ImplementationArg sumAB))) 0
             [Defaults (StaticDefaults (VObj [''b'' \<mapsto> VNum 2]))]"




text \<open>\<open>blueprint(props => props)\<close>, with nothing else configured.\<close>

definition exEcho :: "string list heap \<times> ref" where
  "exEcho = blueprint [] (ImplementationArg echo)"

section \<open>Default resolution as the specification words it\<close>

text \<open>
  The outputs of all default providers, each applied to the same current props, and
  their union in which the last provider that has a key gives its value.
\<close>

fun spec_providerOutputs :: "'u fn list \<Rightarrow> val \<Rightarrow> (val list, 'u) comp" where
  "spec_providerOutputs [] currentProps w = (Inr [], w)"
| "spec_providerOutputs (p # ps) currentProps w =
     (case p currentProps w of
        (Inl e, w') \<Rightarrow> (Inl e, w')
      | (Inr d, w') \<Rightarrow>
          (case spec_providerOutputs ps currentProps w' of
             (Inl e, w'') \<Rightarrow> (Inl e, w'')
           | (Inr ds, w'') \<Rightarrow> (Inr (d # ds), w'')))"

definition spec_union :: "val list \<Rightarrow> obj" where
  "spec_union ds = (\<lambda>k. let defining = filter (\<lambda>d. own d k \<noteq> None) ds
                        in if defining = [] then None else own (last defining) k)"

section \<open>Concrete transforms and pipes\<close>



text \<open>
  \<open>blueprint(props => props).input(t1).input(t2).input(t3)\<close>, where \<open>t2\<close> replaces the
  props and all three leave a mark.
\<close>

definition exInputs :: "string list heap \<times> ref" where
  "exInputs = chainAll (fst (blueprint [] (ImplementationArg echo))) 0
                (map Input [logsEcho ''t1'', logs ''t2'' (VStr ''from t2''), logsEcho ''t3''])"








section \<open>Concrete addons\<close>





section \<open>Facts about the store\<close>

lemmas engine_defs = invoke_def callableBlueprint_def propsForCore_def prepareProps_def providerProps_def
  applyDefaults_def callerRecord_def applyEnforced_def validatePropsStage_def runImplementation_def
  finishCall_def asyncHandling_def processResultAndFinalize_def validateResultStage_def
  promiseThen_def notImplementedError_def console_error_def initialState_def
  blueprint_def makeCallable_def

lemmas chain_defs = implement_def input_def defaults_def enforce_def output_method_def
  before_def after_def toAsync_def toVoid_def zProps_def zResult_def pipe_def

lemma chain_fst: "\<exists>st. fst (chain h self m) = h @ [st]"
  by (cases m) (simp_all add: makeCallable_def chain_defs)

lemma chain_snd: "snd (chain h self m) = length h"
  by (cases m) (simp_all add: makeCallable_def chain_defs)

section \<open>Chain methods leave the receiver alone\<close>

text \<open>
  Claim C1, as amended. Let \<open>self\<close> be a callable of the engine's store and \<open>m\<close> any of
  the twelve chain methods (implement, input, defaults, enforce, output, before, after,
  toAsync, toVoid, zProps, zResult, pipe). The chain call returns a callable that is not
  \<open>self\<close> and lives in the new store; every callable of the old store, \<open>self\<close> among
  them, keeps its state; and calling \<open>self\<close> after the chain call gives, on every input
  and in every world, the same outcome (value or error, and world) as before it. The
  \<open>implement\<close> of the blueprint with addons is of another kind: it returns the receiver,
  which from then on runs the new implementation.
\<close>

theorem chain_nondestructive:
  assumes "self < length h"
  shows "snd (chain h self m) \<noteq> self
       \<and> snd (chain h self m) < length (fst (chain h self m))
       \<and> (\<forall>c < length h. fst (chain h self m) ! c = h ! c)
       \<and> invoke (fst (chain h self m)) self x w = invoke h self x w
       \<and> snd (implementA s a f) = a
       \<and> (a < length s \<longrightarrow> callA (fst (implementA s a f)) a x w = f x w)"
proof -
  obtain st where st: "fst (chain h self m) = h @ [st]"
    using chain_fst by blast
  show ?thesis
    using assms by (simp add: st chain_snd invoke_def nth_append implementA_def callA_def)
qed

theorem chain_nondestructive_witness:
  "(0::nat) < length ex0
   \<and> snd (chain ex0 0 ToVoid) \<noteq> 0
   \<and> snd (chain ex0 0 ToVoid) < length (fst (chain ex0 0 ToVoid))
   \<and> fst (chain ex0 0 ToVoid) ! 0 = ex0 ! 0
   \<and> invoke (fst (chain ex0 0 ToVoid)) 0 VUndef w0 = invoke ex0 0 VUndef w0
   \<and> (0::nat) < length exA
   \<and> snd (implementA exA 0 (returns (VNum 2))) = 0
   \<and> callA (fst (implementA exA 0 (returns (VNum 2)))) 0 VUndef w0 = (Inr (VNum 2), w0)"
  using chain_nondestructive [of 0 ex0 ToVoid VUndef w0 exA 0 "returns (VNum 2)"]
  by (simp add: ex0_def blueprint_def makeCallable_def exA_def blueprintA_def returns_def)

text \<open>
  Claim C1 as stated fails for \<open>implement\<close> of the blueprint with addons: on the
  blueprint made with \<open>init = () => 1\<close>, \<open>implement(() => 2)\<close> returns the receiver
  itself, and the receiver, which returned 1 before the call, returns 2 after it.
\<close>

theorem implementA_counterexample:
  "snd (implementA exA 0 (returns (VNum 2))) = 0
   \<and> callA exA 0 VUndef w0 = (Inr (VNum 1), w0)
   \<and> callA (fst (implementA exA 0 (returns (VNum 2)))) 0 VUndef w0 = (Inr (VNum 2), w0)"
  by (simp add: implementA_def callA_def exA_def blueprintA_def returns_def)

section \<open>Facts about the stages\<close>

lemma map_add_self: "m ++ m = (m :: 'a \<rightharpoonup> 'b)"
  by (rule ext) (simp add: map_add_def split: option.splits)

lemma map_add_absorb: "rd ++ (rd ++ x) = rd ++ (x :: 'a \<rightharpoonup> 'b)"
  by (rule ext) (simp add: map_add_def split: option.splits)

text \<open>
  The three-way branch always takes its last arm, which merges the same defaults once
  more: the props after default application are the caller's record over the defaults.
\<close>

lemma applyDefaults_eq: "applyDefaults st props rd = VObj (rd ++ callerRecord props)"
  by (simp add: applyDefaults_def Let_def map_add_absorb map_add_self)


lemma prepareProps_plain:
  assumes "inputMappers st = []" and "\<not> (validateProps st \<and> propsSchema st \<noteq> None)"
  shows "prepareProps st props w =
           (case resolveDefaults (defaultProviders st) (providerProps st props) Map.empty w of
              (Inl e, w1) \<Rightarrow> (Inl e, w1)
            | (Inr rd, w1) \<Rightarrow> (Inr (applyEnforced st (applyDefaults st props rd)), w1))"
  using assms
  by (auto simp: prepareProps_def validatePropsStage_def split: prod.splits sum.splits option.splits)


lemma prepareProps_parse_fails:
  assumes "validateProps st" and "propsSchema st = Some parse"
    and "resolveDefaults (defaultProviders st) (providerProps st props) Map.empty w = (Inr rd, w1)"
    and "runInputMappers (inputMappers st) (applyEnforced st (applyDefaults st props rd)) w1
           = (Inr mappedProps, w2)"
    and "parse mappedProps w2 = (Inl e, w3)"
  shows "prepareProps st props w = (Inl e, console_error (PropsValidationLog mappedProps) w3)"
  using assms by (simp add: prepareProps_def validatePropsStage_def)

lemma call_prepare_fails:
  "prepareProps st props w = (Inl e, w') \<Longrightarrow> callableBlueprint st props w = (Inl e, w')"
  by (simp add: callableBlueprint_def propsForCore_def)

section \<open>A blueprint without core logic\<close>



section \<open>Input validation\<close>

lemma exValidated_eval:
  "invoke (fst exValidated) (snd exValidated) (VObj [''name'' \<mapsto> VStr []]) w0 =
     (Inl (Thrown (VError ''ZodError: name is too short'')),
      w0\<lparr>console := [PropsValidationLog (VObj [''name'' \<mapsto> VStr []])]\<rparr>)"
  by (simp add: exValidated_def engine_defs chain_defs logs_def requireName_def w0_def)

text \<open>
  Claim C8. Let the props validation be enabled with a schema, and let the schema's
  \<open>parse\<close> fail with \<open>e\<close> on the mapped props. Then the call fails with \<open>e\<close>, in
  the world that \<open>parse\<close> left plus the engine's console entry; and it does so whatever
  the core logic, the hooks, the output mappers, the result schema and the async and void
  flags are, so none of them runs. In particular, with the schema that requires a
  non-empty string \<open>name\<close>, the call on \<open>{ name: "" }\<close> fails with the validation error
  and the core logic's mark is not in the trace.
\<close>

theorem input_validation_aborts:
  assumes "validateProps st" and "propsSchema st = Some parse"
    and "resolveDefaults (defaultProviders st) (providerProps st props) Map.empty w = (Inr rd, w1)"
    and "runInputMappers (inputMappers st) (applyEnforced st (applyDefaults st props rd)) w1
           = (Inr mappedProps, w2)"
    and "parse mappedProps w2 = (Inl e, w3)"
  shows "callableBlueprint st props w
           = (Inl e, console_error (PropsValidationLog mappedProps) w3)
       \<and> callableBlueprint
           (st\<lparr>implementation := impl, beforeHooks := bh, outputMappers := om,
               afterHooks := ah, resultSchema := rs, validateResults := vr,
               isAsync := a, isVoid := v\<rparr>) props w
           = (Inl e, console_error (PropsValidationLog mappedProps) w3)
       \<and> invoke (fst exValidated) (snd exValidated) (VObj [''name'' \<mapsto> VStr []]) w0 =
           (Inl (Thrown (VError ''ZodError: name is too short'')),
            w0\<lparr>console := [PropsValidationLog (VObj [''name'' \<mapsto> VStr []])]\<rparr>)"
proof -
  let ?st' = "st\<lparr>implementation := impl, beforeHooks := bh, outputMappers := om,
               afterHooks := ah, resultSchema := rs, validateResults := vr,
               isAsync := a, isVoid := v\<rparr>"
  have 1: "prepareProps st props w = (Inl e, console_error (PropsValidationLog mappedProps) w3)"
    using assms by (rule prepareProps_parse_fails)
  have "prepareProps ?st' props w = (Inl e, console_error (PropsValidationLog mappedProps) w3)"
    using assms
    by (intro prepareProps_parse_fails [where parse = parse and rd = rd and ?w1.0 = w1 and ?w2.0 = w2])
       (simp_all add: providerProps_def applyDefaults_eq applyEnforced_def)
  with 1 show ?thesis
    by (simp add: call_prepare_fails exValidated_eval)
qed

theorem input_validation_aborts_witness:
  "validateProps (fst exValidated ! snd exValidated)
   \<and> propsSchema (fst exValidated ! snd exValidated) = Some requireName
   \<and> resolveDefaults (defaultProviders (fst exValidated ! snd exValidated))
        (providerProps (fst exValidated ! snd exValidated) (VObj [''name'' \<mapsto> VStr []]))
        Map.empty w0 = (Inr Map.empty, w0)
   \<and> runInputMappers (inputMappers (fst exValidated ! snd exValidated))
        (applyEnforced (fst exValidated ! snd exValidated)
           (applyDefaults (fst exValidated ! snd exValidated) (VObj [''name'' \<mapsto> VStr []])
              Map.empty)) w0
       = (Inr (VObj [''name'' \<mapsto> VStr []]), w0)
   \<and> requireName (VObj [''name'' \<mapsto> VStr []]) w0
       = (Inl (Thrown (VError ''ZodError: name is too short'')), w0)
   \<and> callableBlueprint (fst exValidated ! snd exValidated) (VObj [''name'' \<mapsto> VStr []]) w0
       = (Inl (Thrown (VError ''ZodError: name is too short'')),
          console_error (PropsValidationLog (VObj [''name'' \<mapsto> VStr []])) w0)"
  using input_validation_aborts
          [of "fst exValidated ! snd exValidated" requireName "VObj [''name'' \<mapsto> VStr []]"
              w0 Map.empty w0 "VObj [''name'' \<mapsto> VStr []]" w0
              "Thrown (VError ''ZodError: name is too short'')" w0]
  by (simp add: exValidated_def engine_defs chain_defs logs_def requireName_def w0_def)

section \<open>Enforced values\<close>




section \<open>Primitive inputs\<close>

text \<open>
  Claim C4, as amended. A caller input that is not an object (\<open>null\<close> counts as not an
  object) is never passed on unchanged. In every configuration the props after default
  application are a record: the resolved defaults with the input under the key
  \<open>props\<close>, or the resolved defaults alone when the input is \<open>undefined\<close>. With no
  default provider, no enforced value, no input mapper and no props validation, the
  validated props are the record \<open>{ props: input }\<close>, or the empty record for
  \<open>undefined\<close>.
\<close>

theorem primitive_always_wrapped:
  assumes "typeof props \<noteq> ''object'' \<or> props = VNull"
  shows "applyDefaults st props rd =
           VObj (rd ++ (if props = VUndef then Map.empty else [''props'' \<mapsto> props]))
       \<and> (defaultProviders st = [] \<and> enforcedValues st = Map.empty \<and> inputMappers st = []
            \<and> \<not> validateProps st
          \<longrightarrow> prepareProps st props w =
                (Inr (VObj (if props = VUndef then Map.empty else [''props'' \<mapsto> props])), w))"
proof (intro conjI impI)
  show "applyDefaults st props rd =
           VObj (rd ++ (if props = VUndef then Map.empty else [''props'' \<mapsto> props]))"
    using assms by (auto simp: applyDefaults_eq callerRecord_def)
  assume "defaultProviders st = [] \<and> enforcedValues st = Map.empty \<and> inputMappers st = []
            \<and> \<not> validateProps st"
  then show "prepareProps st props w =
                (Inr (VObj (if props = VUndef then Map.empty else [''props'' \<mapsto> props])), w)"
    using assms
    by (auto simp: prepareProps_plain applyDefaults_eq callerRecord_def applyEnforced_def)
qed

theorem primitive_always_wrapped_witness:
  "typeof (VNum 5) = ''number''
   \<and> applyDefaults (fst exEcho ! snd exEcho) (VNum 5) Map.empty = VObj [''props'' \<mapsto> VNum 5]
   \<and> defaultProviders (fst exEcho ! snd exEcho) = []
   \<and> enforcedValues (fst exEcho ! snd exEcho) = Map.empty
   \<and> inputMappers (fst exEcho ! snd exEcho) = []
   \<and> \<not> validateProps (fst exEcho ! snd exEcho)
   \<and> prepareProps (fst exEcho ! snd exEcho) (VNum 5) w0 = (Inr (VObj [''props'' \<mapsto> VNum 5]), w0)"
  using primitive_always_wrapped [of "VNum 5" "fst exEcho ! snd exEcho" Map.empty w0]
  by (simp add: exEcho_def engine_defs)

text \<open>
  Claim C4 as stated fails on \<open>blueprint(props => props)\<close>, which has no default
  provider, no enforced value and no input mapper: called with the number 5, its core
  logic receives the record \<open>{ props: 5 }\<close>, not 5.
\<close>

theorem primitive_passthrough_counterexample:
  "typeof (VNum 5) \<noteq> ''object''
   \<and> defaultProviders (fst exEcho ! snd exEcho) = []
   \<and> enforcedValues (fst exEcho ! snd exEcho) = Map.empty
   \<and> inputMappers (fst exEcho ! snd exEcho) = []
   \<and> propsForCore (fst exEcho ! snd exEcho) (VNum 5) w0 = (Inr (VObj [''props'' \<mapsto> VNum 5]), w0)
   \<and> invoke (fst exEcho) (snd exEcho) (VNum 5) w0 = (Inr (VObj [''props'' \<mapsto> VNum 5]), w0)
   \<and> VObj [''props'' \<mapsto> VNum 5] \<noteq> VNum 5"
  by (simp add: exEcho_def engine_defs echo_def w0_def)

section \<open>Default resolution\<close>

lemma spec_union_Nil: "spec_union [] = Map.empty"
  by (simp add: spec_union_def)

lemma spec_union_snoc: "spec_union (ds @ [d]) = spec_union ds ++ own d"
  by (rule ext) (auto simp: spec_union_def map_add_def Let_def split: option.splits)

lemma spec_union_Cons: "acc ++ spec_union (d # ds) = (acc ++ own d) ++ spec_union ds"
proof (induction ds rule: rev_induct)
  case Nil
  have "spec_union [d] = own d"
    using spec_union_snoc [of "[]" d] by (simp add: spec_union_Nil)
  then show ?case by (simp add: spec_union_Nil)
next
  case (snoc x xs)
  have "acc ++ spec_union (d # xs @ [x]) = acc ++ (spec_union (d # xs) ++ own x)"
    using spec_union_snoc [of "d # xs" x] by simp
  also have "\<dots> = (acc ++ spec_union (d # xs)) ++ own x" by simp
  also have "\<dots> = ((acc ++ own d) ++ spec_union xs) ++ own x" by (simp add: snoc.IH)
  also have "\<dots> = (acc ++ own d) ++ spec_union (xs @ [x])" by (simp add: spec_union_snoc)
  finally show ?case .
qed

lemma resolveDefaults_refines:
  "resolveDefaults ps cp acc w =
     (case spec_providerOutputs ps cp w of
        (Inl e, w') \<Rightarrow> (Inl e, w')
      | (Inr ds, w') \<Rightarrow> (Inr (acc ++ spec_union ds), w'))"
proof (induction ps arbitrary: acc w)
  case Nil
  then show ?case by (simp add: spec_union_Nil)
next
  case (Cons p ps)
  show ?case
    by (simp add: Cons.IH spec_union_Cons split: prod.splits sum.splits)
qed

lemma exSum_7: "invoke (fst exSum) (snd exSum) (VObj [''a'' \<mapsto> VNum 5]) w0 = (Inr (VNum 7), w0)"
  by (simp add: exSum_def engine_defs chain_defs sumAB_def w0_def)

lemma exSum_15:
  "invoke (fst exSum) (snd exSum) (VObj [''a'' \<mapsto> VNum 5, ''b'' \<mapsto> VNum 10]) w0 = (Inr (VNum 15), w0)"
  by (simp add: exSum_def engine_defs chain_defs sumAB_def w0_def)

text \<open>
  Claim C5. Default resolution is the union of the outputs of all default providers:
  every provider is applied to the same current props (a copy of an object input; the
  empty record for an \<open>undefined\<close> input when there is a provider), a failing provider
  fails the call, and in the union a later provider's keys override an earlier one's.
  In default application the caller's keys win over the resolved defaults, and the
  defaults fill the keys the caller left out. The blueprint with core logic
  \<open>input => input.a + input.b\<close> and \<open>.defaults({ b: 2 })\<close> returns 7 on \<open>{ a: 5 }\<close>
  and 15 on \<open>{ a: 5, b: 10 }\<close>.
\<close>

theorem default_resolution:
  "resolveDefaults (defaultProviders st) (providerProps st props) Map.empty w =
     (case spec_providerOutputs (defaultProviders st) (providerProps st props) w of
        (Inl e, w') \<Rightarrow> (Inl e, w')
      | (Inr ds, w') \<Rightarrow> (Inr (spec_union ds), w'))
   \<and> spec_union (ds @ [d]) = spec_union ds ++ own d
   \<and> providerProps st (VObj m) = VObj m
   \<and> (defaultProviders st \<noteq> [] \<longrightarrow> providerProps st VUndef = VObj Map.empty)
   \<and> (m k = Some v \<longrightarrow> own (applyDefaults st (VObj m) rd) k = Some v)
   \<and> (m k' = None \<longrightarrow> own (applyDefaults st (VObj m) rd) k' = rd k')
   \<and> invoke (fst exSum) (snd exSum) (VObj [''a'' \<mapsto> VNum 5]) w0 = (Inr (VNum 7), w0)
   \<and> invoke (fst exSum) (snd exSum) (VObj [''a'' \<mapsto> VNum 5, ''b'' \<mapsto> VNum 10]) w0
       = (Inr (VNum 15), w0)"
proof -
  have "resolveDefaults (defaultProviders st) (providerProps st props) Map.empty w =
     (case spec_providerOutputs (defaultProviders st) (providerProps st props) w of
        (Inl e, w') \<Rightarrow> (Inl e, w')
      | (Inr ds, w') \<Rightarrow> (Inr (spec_union ds), w'))"
    by (simp add: resolveDefaults_refines split: prod.splits sum.splits)
  moreover have "providerProps st (VObj m) = VObj m"
    by (simp add: providerProps_def)
  moreover have "defaultProviders st \<noteq> [] \<longrightarrow> providerProps st VUndef = VObj Map.empty"
    by (simp add: providerProps_def)
  moreover have "m k = Some v \<longrightarrow> own (applyDefaults st (VObj m) rd) k = Some v"
    by (simp add: applyDefaults_eq callerRecord_def)
  moreover have "m k' = None \<longrightarrow> own (applyDefaults st (VObj m) rd) k' = rd k'"
    by (simp add: applyDefaults_eq callerRecord_def map_add_def)
  ultimately show ?thesis
    by (simp add: spec_union_snoc exSum_7 exSum_15)
qed

text \<open>
  On the sum blueprint: its provider list is not empty, so \<open>undefined\<close> is resolved
  against the empty record; on \<open>{ a: 5 }\<close> with the resolved defaults \<open>{ b: 2 }\<close> the
  caller's \<open>a\<close> stays and the default fills \<open>b\<close>.
\<close>

theorem default_resolution_witness:
  "defaultProviders (fst exSum ! snd exSum) \<noteq> []
   \<and> providerProps (fst exSum ! snd exSum) VUndef = VObj Map.empty
   \<and> [''a'' \<mapsto> VNum 5] ''a'' = Some (VNum 5)
   \<and> own (applyDefaults (fst exSum ! snd exSum) (VObj [''a'' \<mapsto> VNum 5])
            [''b'' \<mapsto> VNum 2]) ''a'' = Some (VNum 5)
   \<and> [''a'' \<mapsto> VNum 5] ''b'' = None
   \<and> own (applyDefaults (fst exSum ! snd exSum) (VObj [''a'' \<mapsto> VNum 5])
            [''b'' \<mapsto> VNum 2]) ''b'' = Some (VNum 2)"
  using default_resolution
          [of "fst exSum ! snd exSum" VUndef w0 "[]" VUndef
              "[''a'' \<mapsto> VNum 5]" "''a''" "VNum 5" "[''b'' \<mapsto> VNum 2]" "''b''"]
  by (simp add: exSum_def engine_defs chain_defs)

section \<open>Input transforms\<close>

lemma chainAll_Input:
  "self < length h \<Longrightarrow> chainAll h self (map Input ts) = (h', b) \<Longrightarrow>
     b < length h' \<and> h' ! b = (h ! self)\<lparr>inputMappers := rev ts @ inputMappers (h ! self)\<rparr>"
proof (induction ts arbitrary: h self)
  case Nil
  then show ?case by simp
next
  case (Cons t ts)
  let ?st = "(h ! self)\<lparr>inputMappers := t # inputMappers (h ! self)\<rparr>"
  from Cons.prems have "chainAll (h @ [?st]) (length h) (map Input ts) = (h', b)"
    by (simp add: input_def makeCallable_def)
  with Cons.IH [of "length h" "h @ [?st]"] show ?case by simp
qed

lemma runInputMappers_append:
  "runInputMappers (xs @ ys) v w =
     (case runInputMappers xs v w of
        (Inl e, w') \<Rightarrow> (Inl e, w')
      | (Inr v', w') \<Rightarrow> runInputMappers ys v' w')"
  by (induction xs arbitrary: v w) (auto split: prod.splits sum.splits)

lemma stage_inputMappers_update:
  "providerProps (st\<lparr>inputMappers := ms\<rparr>) = providerProps st"
  "applyEnforced (st\<lparr>inputMappers := ms\<rparr>) = applyEnforced st"
  "applyDefaults (st\<lparr>inputMappers := ms\<rparr>) = applyDefaults st"
  "validatePropsStage (st\<lparr>inputMappers := ms\<rparr>) = validatePropsStage st"
  by (simp_all add: fun_eq_iff providerProps_def applyDefaults_eq applyEnforced_def
      validatePropsStage_def split: option.splits)

lemma prepareProps_inputMappers:
  "prepareProps (st\<lparr>inputMappers := ms\<rparr>) props w =
     (case resolveDefaults (defaultProviders st) (providerProps st props) Map.empty w of
        (Inl e, w1) \<Rightarrow> (Inl e, w1)
      | (Inr rd, w1) \<Rightarrow>
          (case runInputMappers ms (applyEnforced st (applyDefaults st props rd)) w1 of
             (Inl e, w2) \<Rightarrow> (Inl e, w2)
           | (Inr mappedProps, w2) \<Rightarrow> validatePropsStage st mappedProps w2))"
  by (simp add: prepareProps_def stage_inputMappers_update split: prod.splits sum.splits)

text \<open>
  Claim C6. After the calls \<open>input(t1)\<close>, ..., \<open>input(tn)\<close> on a blueprint, each on
  the callable the previous one returned, the mapper list is \<open>tn, ..., t1\<close> followed by
  the receiver's mappers. At a call the defaults are resolved and applied and the enforced
  values merged as for the receiver; then \<open>tn\<close>, the transform added last, is the first
  to run, on the post-defaults, post-enforcement props; the others follow in reverse order
  of addition, each on the previous one's output, before the receiver's own mappers and
  the validation. A transform that fails ends the call.
\<close>

theorem input_transforms_last_first:
  assumes "self < length h" and "chainAll h self (map Input (ts @ [t])) = (h', b)"
  shows "inputMappers (h' ! b) = t # rev ts @ inputMappers (h ! self)
       \<and> prepareProps (h' ! b) props w =
           (case resolveDefaults (defaultProviders (h ! self)) (providerProps (h ! self) props)
                   Map.empty w of
              (Inl e, w1) \<Rightarrow> (Inl e, w1)
            | (Inr rd, w1) \<Rightarrow>
                (case t (applyEnforced (h ! self) (applyDefaults (h ! self) props rd)) w1 of
                   (Inl e, w2) \<Rightarrow> (Inl e, w2)
                 | (Inr mapped, w2) \<Rightarrow>
                     (case runInputMappers (rev ts @ inputMappers (h ! self)) mapped w2 of
                        (Inl e, w3) \<Rightarrow> (Inl e, w3)
                      | (Inr mappedProps, w3) \<Rightarrow> validatePropsStage (h ! self) mappedProps w3)))
       \<and> runInputMappers (rev ts @ inputMappers (h ! self)) v w =
           (case runInputMappers (rev ts) v w of
              (Inl e, w') \<Rightarrow> (Inl e, w')
            | (Inr v', w') \<Rightarrow> runInputMappers (inputMappers (h ! self)) v' w')"
proof -
  have st: "h' ! b = (h ! self)\<lparr>inputMappers := rev (ts @ [t]) @ inputMappers (h ! self)\<rparr>"
    using chainAll_Input [OF assms] by simp
  show ?thesis
    by (simp add: st prepareProps_inputMappers runInputMappers_append
        split: prod.splits sum.splits)
qed

text \<open>
  On \<open>blueprint(props => props).input(t1).input(t2).input(t3)\<close> the trace of a call
  reads \<open>t3\<close>, \<open>t2\<close>, \<open>t1\<close>, and the core logic receives what \<open>t2\<close> returned,
  passed through \<open>t1\<close>.
\<close>

theorem input_transforms_last_first_witness:
  "(0::nat) < length (fst (blueprint [] (ImplementationArg echo) :: string list heap \<times> ref))
   \<and> chainAll (fst (blueprint [] (ImplementationArg echo))) 0
        (map Input ([logsEcho ''t1'', logs ''t2'' (VStr ''from t2'')] @ [logsEcho ''t3'']))
       = exInputs
   \<and> inputMappers (fst exInputs ! snd exInputs)
       = [logsEcho ''t3'', logs ''t2'' (VStr ''from t2''), logsEcho ''t1'']
   \<and> invoke (fst exInputs) (snd exInputs) (VObj Map.empty) w0
       = (Inr (VStr ''from t2''), w0\<lparr>user := [''t3'', ''t2'', ''t1'']\<rparr>)"
proof -
  let ?h = "fst (blueprint [] (ImplementationArg echo) :: string list heap \<times> ref)"
  have 1: "(0::nat) < length ?h"
    by (simp add: blueprint_def makeCallable_def)
  have 2: "chainAll ?h 0
             (map Input ([logsEcho ''t1'', logs ''t2'' (VStr ''from t2'')] @ [logsEcho ''t3'']))
           = (fst exInputs, snd exInputs)"
    by (simp add: exInputs_def)
  have 3: "inputMappers (fst exInputs ! snd exInputs)
       = [logsEcho ''t3'', logs ''t2'' (VStr ''from t2''), logsEcho ''t1'']"
    using input_transforms_last_first [OF 1 2]
    by (simp add: blueprint_def makeCallable_def initialState_def)
  have 4: "invoke (fst exInputs) (snd exInputs) (VObj Map.empty) w0
       = (Inr (VStr ''from t2''), w0\<lparr>user := [''t3'', ''t2'', ''t1'']\<rparr>)"
    by (simp add: exInputs_def engine_defs chain_defs echo_def logs_def logsEcho_def w0_def)
  have 5: "chainAll ?h 0
             (map Input ([logsEcho ''t1'', logs ''t2'' (VStr ''from t2'')] @ [logsEcho ''t3'']))
           = exInputs"
    by (simp add: exInputs_def)
  from 1 5 3 4 show ?thesis by simp
qed

section \<open>Output transforms\<close>







section \<open>Piping\<close>





















section \<open>Attaching an addon\<close>









end
